theory Spec2Isabelle
  imports Main "HOL-Library.Char_ord" "HOL-Library.List_Lexorder"
begin

section \<open>The launchd job scheduler of \<^verbatim>\<open>scripts/scheduler.py\<close>\<close>

text \<open>
  The script keeps a registry of named jobs in one JSON file, writes one launchd
  definition file (a plist) per job and asks \<^verbatim>\<open>launchctl\<close> to load or unload it.
  The embedding follows the script function by function. What the script reads from
  outside is a parameter: the two root directories, the return code of
  \<^verbatim>\<open>launchctl load\<close> and the clock. What it changes outside is a field of the
  record \<open>world\<close>: the registry file, the definition files, the calls made to
  \<^verbatim>\<open>launchctl\<close>, the file-system writes, and what was printed.

  Values are typed as the docstring of \<^verbatim>\<open>add_job\<close> declares them: \<open>interval\<close> is
  an integer, \<open>calendar\<close> a dictionary from strings to integers, \<open>run_at_load\<close>
  a boolean, each of them optional. JSON of another shape (a string where a number is
  expected, a non-integer number) is outside the model.

  A Python string is a sequence of code points. Here it is a \<open>string\<close> in which every
  \<open>char\<close> stands for one code point, so the strings of the model are those whose
  code points are below 256; the order of \<open>char\<close> is the order of the code points.
  The text of a log file is the text that \<^verbatim>\<open>read_text\<close> decodes.

  The write of the definition file can fail, and the model says when: \<^verbatim>\<open>open\<close>
  fails when the file system refuses the path, which is the field \<open>open_wb\<close> of the
  world, and \<^verbatim>\<open>plistlib.dump\<close> fails on a control character and on an integer out of
  range. Other failures of the operating system (a directory that cannot be created, a
  registry file that cannot be read or written, a missing \<^verbatim>\<open>launchctl\<close>) are outside
  the model.
\<close>

subsection \<open>Python built-ins used by the script\<close>

datatype py_error = IndexError | ValueError | OverflowError | OSError

text \<open>\<^verbatim>\<open>str(n)\<close> for an integer: decimal digits, with a minus sign when negative.\<close>

definition digit_char :: "nat \<Rightarrow> char" where
  "digit_char d = ''0123456789'' ! d"

function str_nat :: "nat \<Rightarrow> string" where
  "str_nat n = (if n < 10 then [digit_char n] else str_nat (n div 10) @ [digit_char (n mod 10)])"
  by pat_completeness auto
termination
  by (relation "measure (\<lambda>n. n)") auto

declare str_nat.simps [simp del]

definition str_int :: "int \<Rightarrow> string" where
  "str_int i = (if i < 0 then ''-'' @ str_nat (nat (- i)) else str_nat (nat i))"

text \<open>
  The format \<^verbatim>\<open>{i:02d}\<close>: the decimal text of \<open>i\<close>, filled with zeros after the
  sign up to a width of two characters. A negative number is two characters wide already.
\<close>

definition fmt_02d :: "int \<Rightarrow> string" where
  "fmt_02d i = (let s = str_int i in if length s < 2 then ''0'' @ s else s)"

text \<open>
  \<^verbatim>\<open>xs[i]\<close> on a list: a negative index counts from the end, an index outside
  \<open>-len(xs) .. len(xs) - 1\<close> raises \<^verbatim>\<open>IndexError\<close>.
\<close>

definition py_index :: "'a list \<Rightarrow> int \<Rightarrow> py_error + 'a" where
  "py_index xs i =
     (if 0 \<le> i \<and> i < int (length xs) then Inr (xs ! nat i)
      else if i < 0 \<and> - int (length xs) \<le> i then Inr (xs ! nat (int (length xs) + i))
      else Inl IndexError)"

text \<open>
  \<^verbatim>\<open>xs[start:]\<close>: a negative start counts from the end and is clipped at the
  beginning of the list, a start beyond the end gives the empty list.
\<close>

definition py_slice_from :: "'a list \<Rightarrow> int \<Rightarrow> 'a list" where
  "py_slice_from xs start =
     (let n = int (length xs);
          s = (if start < 0 then max 0 (start + n) else min start n)
      in drop (nat s) xs)"

text \<open>\<^verbatim>\<open>sep.join(parts)\<close>.\<close>

fun join_with :: "string \<Rightarrow> string list \<Rightarrow> string" where
  "join_with sep [] = []"
| "join_with sep [p] = p"
| "join_with sep (p # q # ps) = p @ sep @ join_with sep (q # ps)"

text \<open>
  \<^verbatim>\<open>s.strip()\<close> removes the white space at both ends. The white space below 256
  is: tab, line feed, vertical tab, form feed, carriage return, the four separators
  \<open>0x1C .. 0x1F\<close>, the space, the next-line character \<open>0x85\<close> and the no-break
  space \<open>0xA0\<close>.
\<close>

definition is_space :: "char \<Rightarrow> bool" where
  "is_space c = (c \<in> set [CHR 0x09, CHR 0x0A, CHR 0x0B, CHR 0x0C, CHR 0x0D,
                          CHR 0x1C, CHR 0x1D, CHR 0x1E, CHR 0x1F, CHR 0x20,
                          CHR 0x85, CHR 0xA0])"

definition strip :: "string \<Rightarrow> string" where
  "strip s = rev (dropWhile is_space (rev (dropWhile is_space s)))"

text \<open>
  \<^verbatim>\<open>s.split(sep)\<close> for a separator of one character: the pieces between the
  separators; never the empty list.
\<close>

fun split_on :: "char \<Rightarrow> string \<Rightarrow> string list" where
  "split_on sep [] = [[]]"
| "split_on sep (c # cs) =
     (let r = split_on sep cs in if c = sep then [] # r else (c # hd r) # tl r)"

text \<open>
  Reading a file in text mode turns the line ends \<^verbatim>\<open>\r\n\<close> and \<^verbatim>\<open>\r\<close> into
  \<^verbatim>\<open>\n\<close>.
\<close>

fun universal_newlines :: "string \<Rightarrow> string" where
  "universal_newlines [] = []"
| "universal_newlines [c] = [if c = CHR 0x0D then CHR 0x0A else c]"
| "universal_newlines (c # d # cs) =
     (if c = CHR 0x0D \<and> d = CHR 0x0A then CHR 0x0A # universal_newlines cs
      else if c = CHR 0x0D then CHR 0x0A # universal_newlines (d # cs)
      else c # universal_newlines (d # cs))"

text \<open>
  Paths of \<^verbatim>\<open>pathlib\<close> on a POSIX system, as their text. \<open>path_str s\<close> is
  \<^verbatim>\<open>str(Path(s))\<close>: the root is \<^verbatim>\<open>//\<close> for exactly two leading slashes and
  \<^verbatim>\<open>/\<close> for any other number of them, empty components and \<^verbatim>\<open>.\<close> are
  dropped, \<^verbatim>\<open>..\<close> is kept, and the empty path is \<^verbatim>\<open>.\<close>. \<open>path_join d f\<close> is
  \<^verbatim>\<open>str(Path(d) / f)\<close>: an absolute \<open>f\<close> replaces \<open>d\<close>.
\<close>

definition path_root :: "string \<Rightarrow> string" where
  "path_root s =
     (if take 2 s = ''//'' \<and> take 3 s \<noteq> ''///'' then ''//''
      else if take 1 s = ''/'' then ''/''
      else [])"

definition path_parts :: "string \<Rightarrow> string list" where
  "path_parts s = filter (\<lambda>p. p \<noteq> [] \<and> p \<noteq> ''.'') (split_on CHR ''/'' s)"

definition path_str :: "string \<Rightarrow> string" where
  "path_str s =
     (if path_root s = [] \<and> path_parts s = [] then ''.''
      else path_root s @ join_with ''/'' (path_parts s))"

definition path_join :: "string \<Rightarrow> string \<Rightarrow> string" where
  "path_join d f =
     path_str (if take 1 f = ''/'' then f
               else if d = [] \<or> last d = CHR ''/'' then d @ f
               else d @ ''/'' @ f)"

text \<open>
  What \<^verbatim>\<open>plistlib.dump\<close> refuses. A string or a key with a control character
  (the code points below 32 other than tab, line feed and carriage return) raises
  \<^verbatim>\<open>ValueError\<close>; an integer outside \<open>-2^63 .. 2^64 - 1\<close> raises
  \<^verbatim>\<open>OverflowError\<close>. A dictionary is written in the order of its keys, each key
  before its value, and the first refusal ends the call.
\<close>

definition is_control :: "char \<Rightarrow> bool" where
  "is_control c =
     (c \<in> set [CHR 0x00, CHR 0x01, CHR 0x02, CHR 0x03, CHR 0x04, CHR 0x05, CHR 0x06,
                CHR 0x07, CHR 0x08, CHR 0x0B, CHR 0x0C, CHR 0x0E, CHR 0x0F, CHR 0x10,
                CHR 0x11, CHR 0x12, CHR 0x13, CHR 0x14, CHR 0x15, CHR 0x16, CHR 0x17,
                CHR 0x18, CHR 0x19, CHR 0x1A, CHR 0x1B, CHR 0x1C, CHR 0x1D, CHR 0x1E,
                CHR 0x1F])"

definition has_control :: "string \<Rightarrow> bool" where
  "has_control s = list_ex is_control s"

definition in_plist_range :: "int \<Rightarrow> bool" where
  "in_plist_range i = (- (2 ^ 63) \<le> i \<and> i < 2 ^ 64)"

text \<open>
  The items of a dictionary in the order of the keys. The dictionary is an association
  list read with \<^const>\<open>map_of\<close>, so a key counts once.
\<close>

definition dict_items :: "(string \<times> int) list \<Rightarrow> (string \<times> int) list" where
  "dict_items d = map (\<lambda>k. (k, the (map_of d k))) (sort (remdups (map fst d)))"

fun first_item_error :: "(string \<times> int) list \<Rightarrow> py_error option" where
  "first_item_error [] = None"
| "first_item_error ((k, v) # r) =
     (if has_control k then Some ValueError
      else if \<not> in_plist_range v then Some OverflowError
      else first_item_error r)"

subsection \<open>Data\<close>

text \<open>
  The schedule dictionary. A key that is absent is \<open>None\<close>. The calendar is an
  association list, read with \<^const>\<open>map_of\<close>.
\<close>

record schedule =
  interval :: "int option"
  calendar :: "(string \<times> int) list option"
  run_at_load :: "bool option"

text \<open>The dictionary written to the definition file.\<close>

record plist_dict =
  Label :: string
  ProgramArguments :: "string list"
  StandardOutPath :: string
  StandardErrorPath :: string
  StartInterval :: "int option"
  StartCalendarInterval :: "(string \<times> int) list option"
  RunAtLoad :: "bool option"

text \<open>
  A file at the path of a definition: a complete definition, or what is left when the
  write stopped half way.
\<close>

datatype plist_file = Definition plist_dict | Incomplete

text \<open>One entry of the registry.\<close>

record entry =
  name :: string
  label :: string
  command :: string
  schedule :: schedule
  description :: string
  plist :: string
  enabled :: bool
  created :: string

text \<open>One job as \<^verbatim>\<open>list_jobs\<close> prints it.\<close>

record job_view =
  jv_name :: string
  jv_enabled :: bool
  jv_schedule :: string
  jv_command :: string
  jv_description :: string

text \<open>The JSON objects the script prints.\<close>

datatype printed =
    ErrorObj string
  | Added string string bool schedule
  | Status string string
  | Jobs "job_view list" nat
  | Logs "string list option" "string list option" "string option"

text \<open>What the script does to the file system and to the daemon, in order.\<close>

datatype effect =
    MkDirs
  | MkLogDir
  | WritePlist string
  | Unlink string
  | WriteRegistry
  | LaunchctlLoad string
  | LaunchctlUnload string
  | LaunchctlList

text \<open>
  \<open>open_wb w p\<close> is the exception that \<^verbatim>\<open>open(p, "wb")\<close> raises in this world,
  if any: a directory of the path that does not exist, a path that is not permitted.
\<close>

record world =
  registry_file :: "entry list option"
  plist_files :: "string \<rightharpoonup> plist_file"
  log_files :: "string \<rightharpoonup> string"
  open_wb :: "string \<Rightarrow> py_error option"
  trace :: "effect list"
  stdout :: "printed list"

text \<open>The two roots, \<^verbatim>\<open>REGISTRY_DIR\<close> and \<^verbatim>\<open>LAUNCH_AGENTS_DIR\<close>.\<close>

record config =
  REGISTRY_DIR :: string
  LAUNCH_AGENTS_DIR :: string

definition LABEL_PREFIX :: string where
  "LABEL_PREFIX = ''com.joneshong.scheduler.''"

subsection \<open>Registry and paths\<close>

definition ensure_dirs :: "world \<Rightarrow> world" where
  "ensure_dirs w = w\<lparr>trace := trace w @ [MkDirs]\<rparr>"

definition load_registry :: "world \<Rightarrow> entry list" where
  "load_registry w = (case registry_file w of Some es \<Rightarrow> es | None \<Rightarrow> [])"

definition save_registry :: "entry list \<Rightarrow> world \<Rightarrow> world" where
  "save_registry entries w =
     (let w1 = ensure_dirs w
      in w1\<lparr>registry_file := Some entries, trace := trace w1 @ [WriteRegistry]\<rparr>)"

definition plist_path :: "config \<Rightarrow> string \<Rightarrow> string" where
  "plist_path cfg n = path_join (LAUNCH_AGENTS_DIR cfg) (LABEL_PREFIX @ n @ ''.plist'')"

definition print :: "printed \<Rightarrow> world \<Rightarrow> world" where
  "print out w = w\<lparr>stdout := stdout w @ [out]\<rparr>"

subsection \<open>Truth values of optional entries\<close>

text \<open>
  \<^verbatim>\<open>schedule.get("interval")\<close> in a condition: false when the key is absent and
  when the number is zero. A dictionary is false when it is empty.
\<close>

definition truthy_int :: "int option \<Rightarrow> bool" where
  "truthy_int v = (case v of None \<Rightarrow> False | Some i \<Rightarrow> i \<noteq> 0)"

definition truthy_dict :: "('k \<times> 'v) list option \<Rightarrow> bool" where
  "truthy_dict v = (case v of None \<Rightarrow> False | Some d \<Rightarrow> d \<noteq> [])"

definition truthy_bool :: "bool option \<Rightarrow> bool" where
  "truthy_bool v = (case v of None \<Rightarrow> False | Some b \<Rightarrow> b)"

subsection \<open>add\<close>

definition quote_name :: "string \<Rightarrow> string" where
  "quote_name n = [CHR 0x27] @ n @ [CHR 0x27]"

definition duplicate_msg :: "string \<Rightarrow> string" where
  "duplicate_msg n =
     ''Job '' @ quote_name n @ '' already exists. Remove it first or use a different name.''"

definition not_found_msg :: "string \<Rightarrow> string" where
  "not_found_msg n = ''Job '' @ quote_name n @ '' not found.''"

text \<open>Lines 59 to 73: the dictionary of the definition file.\<close>

definition build_plist :: "config \<Rightarrow> string \<Rightarrow> string \<Rightarrow> schedule \<Rightarrow> plist_dict" where
  "build_plist cfg n cmd s =
     (let log_dir = path_join (REGISTRY_DIR cfg) ''logs'';
          p0 = \<lparr>Label = LABEL_PREFIX @ n,
                ProgramArguments = [''/bin/zsh'', ''-lc'', cmd],
                StandardOutPath = path_join log_dir (n @ ''.log''),
                StandardErrorPath = path_join log_dir (n @ ''.err''),
                StartInterval = None,
                StartCalendarInterval = None,
                RunAtLoad = None\<rparr>;
          p1 = (if truthy_int (interval s) then p0\<lparr>StartInterval := interval s\<rparr>
                else if truthy_dict (calendar s) then p0\<lparr>StartCalendarInterval := calendar s\<rparr>
                else p0)
      in if truthy_bool (run_at_load s) then p1\<lparr>RunAtLoad := Some True\<rparr> else p1)"

text \<open>
  Lines 77 and 78 of the script write the dictionary with \<^verbatim>\<open>plistlib.dump\<close>, which walks the
  keys in sorted order: \<open>Label\<close>, \<open>ProgramArguments\<close>, \<open>RunAtLoad\<close>,
  \<open>StandardErrorPath\<close>, \<open>StandardOutPath\<close>, \<open>StartCalendarInterval\<close>,
  \<open>StartInterval\<close>. The result is the exception it raises, if any.
\<close>

definition plist_dump_error :: "plist_dict \<Rightarrow> py_error option" where
  "plist_dump_error p =
     (if has_control (Label p) \<or> list_ex has_control (ProgramArguments p)
         \<or> has_control (StandardErrorPath p) \<or> has_control (StandardOutPath p)
      then Some ValueError
      else case (case StartCalendarInterval p of
                   None \<Rightarrow> None
                 | Some d \<Rightarrow> first_item_error (dict_items d)) of
             Some err \<Rightarrow> Some err
           | None \<Rightarrow>
               (case StartInterval p of
                  None \<Rightarrow> None
                | Some i \<Rightarrow> if in_plist_range i then None else Some OverflowError))"

text \<open>
  \<open>rc\<close> is the return code of \<^verbatim>\<open>launchctl load\<close>, \<open>now\<close> the text of
  \<^verbatim>\<open>datetime.now().isoformat()\<close>. The result is the exception that ended the call,
  if any, and the world after it. When \<^verbatim>\<open>open\<close> fails nothing is written; when
  \<^verbatim>\<open>plistlib.dump\<close> fails the file was opened already and is left incomplete. Either
  way the call stops there: no \<^verbatim>\<open>launchctl load\<close>, no entry, nothing printed.
\<close>

definition add_job ::
  "config \<Rightarrow> int \<Rightarrow> string \<Rightarrow> string \<Rightarrow> string \<Rightarrow> schedule \<Rightarrow> string \<Rightarrow> world
     \<Rightarrow> py_error option \<times> world" where
  "add_job cfg rc now n cmd s descr w =
     (let w1 = ensure_dirs w;
          entries = load_registry w1
      in if list_ex (\<lambda>e. name e = n) entries
         then (None, print (ErrorObj (duplicate_msg n)) w1)
         else
           let w2 = w1\<lparr>trace := trace w1 @ [MkLogDir]\<rparr>;
               p = build_plist cfg n cmd s;
               plist_file = plist_path cfg n
           in case open_wb w2 plist_file of
                Some err \<Rightarrow> (Some err, w2)
              | None \<Rightarrow>
                  (case plist_dump_error p of
                     Some err \<Rightarrow>
                       (Some err,
                        w2\<lparr>plist_files := (plist_files w2)(plist_file \<mapsto> Incomplete),
                           trace := trace w2 @ [WritePlist plist_file]\<rparr>)
                   | None \<Rightarrow>
                       let w3 = w2\<lparr>plist_files := (plist_files w2)(plist_file \<mapsto> Definition p),
                                   trace := trace w2 @ [WritePlist plist_file]\<rparr>;
                           w4 = w3\<lparr>trace := trace w3 @ [LaunchctlLoad plist_file]\<rparr>;
                           e = \<lparr>name = n, label = LABEL_PREFIX @ n, command = cmd,
                                schedule = s, description = descr, plist = plist_file,
                                enabled = True, created = now\<rparr>;
                           w5 = save_registry (entries @ [e]) w4
                       in (None, print (Added n plist_file (rc = 0) s) w5)))"

subsection \<open>remove, enable, disable\<close>

definition remove_job :: "config \<Rightarrow> string \<Rightarrow> world \<Rightarrow> world" where
  "remove_job cfg n w =
     (let entries = load_registry w
      in case find (\<lambda>e. name e = n) entries of
           None \<Rightarrow> print (ErrorObj (not_found_msg n)) w
         | Some e \<Rightarrow>
             let pfile = plist_path cfg n;
                 w1 = (if plist_files w pfile \<noteq> None
                       then w\<lparr>plist_files := (plist_files w)(pfile := None),
                               trace := trace w @ [LaunchctlUnload pfile, Unlink pfile]\<rparr>
                       else w);
                 w2 = save_registry (filter (\<lambda>e. name e \<noteq> n) entries) w1
             in print (Status ''removed'' n) w2)"

text \<open>
  \<^verbatim>\<open>entry["enabled"] = v\<close> changes the dictionary that \<^verbatim>\<open>next\<close> found, which
  is the first one of that name inside the list that is saved afterwards.
\<close>

fun set_enabled :: "string \<Rightarrow> bool \<Rightarrow> entry list \<Rightarrow> entry list" where
  "set_enabled n v [] = []"
| "set_enabled n v (e # es) =
     (if name e = n then e\<lparr>enabled := v\<rparr> # es else e # set_enabled n v es)"

definition enable_job :: "config \<Rightarrow> string \<Rightarrow> world \<Rightarrow> world" where
  "enable_job cfg n w =
     (let entries = load_registry w
      in case find (\<lambda>e. name e = n) entries of
           None \<Rightarrow> print (ErrorObj (not_found_msg n)) w
         | Some e \<Rightarrow>
             let pfile = plist_path cfg n;
                 w1 = (if plist_files w pfile \<noteq> None
                       then w\<lparr>trace := trace w @ [LaunchctlLoad pfile]\<rparr>
                       else w);
                 w2 = save_registry (set_enabled n True entries) w1
             in print (Status ''enabled'' n) w2)"

definition disable_job :: "config \<Rightarrow> string \<Rightarrow> world \<Rightarrow> world" where
  "disable_job cfg n w =
     (let entries = load_registry w
      in case find (\<lambda>e. name e = n) entries of
           None \<Rightarrow> print (ErrorObj (not_found_msg n)) w
         | Some e \<Rightarrow>
             let pfile = plist_path cfg n;
                 w1 = (if plist_files w pfile \<noteq> None
                       then w\<lparr>trace := trace w @ [LaunchctlUnload pfile]\<rparr>
                       else w);
                 w2 = save_registry (set_enabled n False entries) w1
             in print (Status ''disabled'' n) w2)"

subsection \<open>list\<close>

definition days :: "string list" where
  "days = [''Sun'', ''Mon'', ''Tue'', ''Wed'', ''Thu'', ''Fri'', ''Sat'']"

text \<open>Lines 171 to 184: the summary of one schedule.\<close>

definition schedule_desc :: "schedule \<Rightarrow> py_error + string" where
  "schedule_desc s =
     (if truthy_int (interval s) then
        (let i = the (interval s); mins = i div 60
         in Inr (if mins > 0 then ''every '' @ str_int mins @ '' min''
                 else ''every '' @ str_int i @ ''s''))
      else if truthy_dict (calendar s) then
        (let cal = map_of (the (calendar s));
             parts1 = (case cal ''Weekday'' of
                         None \<Rightarrow> Inr []
                       | Some wd \<Rightarrow> (case py_index days wd of
                                       Inl err \<Rightarrow> Inl err
                                     | Inr d \<Rightarrow> Inr [d]))
         in case parts1 of
              Inl err \<Rightarrow> Inl err
            | Inr ps \<Rightarrow>
                let parts = (case cal ''Hour'' of
                               None \<Rightarrow> ps
                             | Some h \<Rightarrow>
                                 ps @ [fmt_02d h @ '':'' @
                                       fmt_02d (case cal ''Minute'' of None \<Rightarrow> 0 | Some m \<Rightarrow> m)]);
                    joined = join_with '' '' parts
                in Inr (if joined \<noteq> [] then joined else ''calendar''))
      else Inr [])"

text \<open>
  The loop of \<^verbatim>\<open>list_jobs\<close>: it stops at the first entry that raises.
  \<^verbatim>\<open>e["command"][:80]\<close> is the first 80 code points of the command, one \<open>char\<close>
  each.
\<close>

fun render_jobs :: "entry list \<Rightarrow> job_view list \<Rightarrow> py_error + job_view list" where
  "render_jobs [] out = Inr out"
| "render_jobs (e # es) out =
     (case schedule_desc (schedule e) of
        Inl err \<Rightarrow> Inl err
      | Inr d \<Rightarrow>
          render_jobs es
            (out @ [\<lparr>jv_name = name e, jv_enabled = enabled e, jv_schedule = d,
                      jv_command = take 80 (command e), jv_description = description e\<rparr>]))"

text \<open>
  The result is the exception that ended the call, if any, and the world after it.
  The answer of \<^verbatim>\<open>launchctl list\<close> is stored in a variable that is never read.
\<close>

definition list_jobs :: "world \<Rightarrow> py_error option \<times> world" where
  "list_jobs w =
     (let entries = load_registry w
      in if entries = [] then (None, print (Jobs [] 0) w)
         else
           let w1 = w\<lparr>trace := trace w @ [LaunchctlList]\<rparr>
           in case render_jobs entries [] of
                Inl err \<Rightarrow> (Some err, w1)
              | Inr out \<Rightarrow> (None, print (Jobs out (length out)) w1))"

subsection \<open>logs\<close>

text \<open>
  \<^verbatim>\<open>f.read_text().strip().split("\n")[-lines:]\<close>, for a file of the given
  characters.
\<close>

definition file_lines :: "string \<Rightarrow> string list" where
  "file_lines text = split_on (CHR 0x0A) (strip (universal_newlines text))"

definition tail_lines :: "string \<Rightarrow> int \<Rightarrow> string list" where
  "tail_lines text lines = py_slice_from (file_lines text) (- lines)"

definition show_logs :: "config \<Rightarrow> string \<Rightarrow> int \<Rightarrow> world \<Rightarrow> world" where
  "show_logs cfg n lines w =
     (let log_file = path_join (path_join (REGISTRY_DIR cfg) ''logs'') (n @ ''.log'');
          err_file = path_join (path_join (REGISTRY_DIR cfg) ''logs'') (n @ ''.err'');
          out = (case log_files w log_file of
                   None \<Rightarrow> None
                 | Some text \<Rightarrow> Some (tail_lines text lines));
          err = (case log_files w err_file of
                   None \<Rightarrow> None
                 | Some text \<Rightarrow> Some (tail_lines text lines));
          msg = (if out = None \<and> err = None
                 then Some (''No logs found for '' @ quote_name n) else None)
      in print (Logs out err msg) w)"

subsection \<open>Sequences of operations\<close>

text \<open>
  One call of the command line that changes the registry. An \<open>OpAdd\<close> carries what
  the call reads from outside: the return code of \<^verbatim>\<open>launchctl load\<close> and the clock.
  A call that ends with an exception leaves its world to the next call.
\<close>

datatype op =
    OpAdd int string string string schedule string
  | OpRemove string
  | OpEnable string
  | OpDisable string

fun step :: "config \<Rightarrow> op \<Rightarrow> world \<Rightarrow> world" where
  "step cfg (OpAdd rc now n cmd s descr) w = snd (add_job cfg rc now n cmd s descr w)"
| "step cfg (OpRemove n) w = remove_job cfg n w"
| "step cfg (OpEnable n) w = enable_job cfg n w"
| "step cfg (OpDisable n) w = disable_job cfg n w"

fun run :: "config \<Rightarrow> op list \<Rightarrow> world \<Rightarrow> world" where
  "run cfg [] w = w"
| "run cfg (x # xs) w = run cfg xs (step cfg x w)"

definition names :: "world \<Rightarrow> string list" where
  "names w = map name (load_registry w)"

text \<open>The names an operation may bring into the registry.\<close>

fun op_adds :: "op \<Rightarrow> string list" where
  "op_adds (OpAdd rc now n cmd s descr) = [n]"
| "op_adds (OpRemove n) = []"
| "op_adds (OpEnable n) = []"
| "op_adds (OpDisable n) = []"

subsection \<open>What the specification says of the interval summary\<close>

text \<open>
  The specification's wording of the summary of an interval of \<open>n\<close> seconds: minutes
  when \<open>n\<close> is a whole number of minutes, seconds otherwise. It is compared with
  \<^const>\<open>schedule_desc\<close> below.
\<close>

definition spec_interval_summary :: "int \<Rightarrow> string" where
  "spec_interval_summary n =
     (if n mod 60 = 0 then ''every '' @ str_int (n div 60) @ '' min''
      else ''every '' @ str_int n @ ''s'')"

subsection \<open>Concrete worlds\<close>

definition cfg0 :: config where
  "cfg0 = \<lparr>REGISTRY_DIR = ''/home/u/Claude/skills/scheduler'',
            LAUNCH_AGENTS_DIR = ''/home/u/Library/LaunchAgents''\<rparr>"

definition empty_world :: world where
  "empty_world = \<lparr>registry_file = None, plist_files = Map.empty, log_files = Map.empty,
                   open_wb = (\<lambda>p. None), trace = [], stdout = []\<rparr>"

definition only_interval :: "int \<Rightarrow> schedule" where
  "only_interval i = \<lparr>interval = Some i, calendar = None, run_at_load = None\<rparr>"

definition only_calendar :: "(string \<times> int) list \<Rightarrow> schedule" where
  "only_calendar cal = \<lparr>interval = None, calendar = Some cal, run_at_load = None\<rparr>"

definition both_given :: "int \<Rightarrow> (string \<times> int) list \<Rightarrow> schedule" where
  "both_given i cal = \<lparr>interval = Some i, calendar = Some cal, run_at_load = None\<rparr>"

text \<open>The registry after \<^verbatim>\<open>add backup "rsync -a src dst" '{"interval": 3600}'\<close>.\<close>

definition w_backup :: world where
  "w_backup =
     snd (add_job cfg0 0 ''2026-01-01T00:00:00'' ''backup'' ''rsync -a src dst''
            (only_interval 3600) [] empty_world)"

text \<open>The same registry after the definition file was deleted by hand.\<close>

definition w_orphan :: world where
  "w_orphan = w_backup\<lparr>plist_files := Map.empty\<rparr>"

text \<open>The job disabled first, and its definition file deleted by hand after that.\<close>

definition w_disabled_orphan :: world where
  "w_disabled_orphan = (disable_job cfg0 ''backup'' w_backup)\<lparr>plist_files := Map.empty\<rparr>"

definition ops0 :: "op list" where
  "ops0 =
     [OpAdd 1 ''2026-01-02T00:00:00'' ''backup'' ''true'' (only_interval 60) [],
      OpAdd 1 ''2026-01-03T00:00:00'' ''sync'' ''true'' (only_calendar [(''Hour'', 9)]) [],
      OpDisable ''backup'',
      OpRemove ''backup'',
      OpEnable ''sync'']"

text \<open>A registry file with one entry of the given schedule.\<close>

definition w_job :: "schedule \<Rightarrow> world" where
  "w_job s =
     empty_world\<lparr>registry_file :=
       Some [\<lparr>name = ''report'', label = LABEL_PREFIX @ ''report'', command = ''make report'',
              schedule = s, description = [], plist = plist_path cfg0 ''report'',
              enabled = True, created = ''2026-01-01T00:00:00''\<rparr>]\<rparr>"

text \<open>A world whose only file is the stdout log of the job \<open>report\<close>, two lines long.\<close>

definition w_logs :: world where
  "w_logs =
     empty_world\<lparr>log_files :=
       [path_join (path_join (REGISTRY_DIR cfg0) ''logs'') ''report.log''
          \<mapsto> [CHR ''a'', CHR 0x0A, CHR ''b'', CHR 0x0A]]\<rparr>"

section \<open>Properties\<close>

subsection \<open>The registry under the four operations\<close>

lemma list_ex_name: "list_ex (\<lambda>e. name e = n) es = (n \<in> set (map name es))"
  by (auto simp: list_ex_iff)

lemma find_name_None: "(find (\<lambda>e. name e = n) es = None) = (n \<notin> set (map name es))"
  by (auto simp: find_None_iff)

lemma map_name_set_enabled: "map name (set_enabled n v es) = map name es"
  by (induction es) auto

lemma load_registry_save: "load_registry (save_registry es w) = es"
  by (simp add: load_registry_def save_registry_def ensure_dirs_def Let_def)

lemma load_registry_print: "load_registry (print out w) = load_registry w"
  by (simp add: load_registry_def print_def)

text \<open>
  What add does in each of its three cases: the name is there already, the write of the
  definition file fails, the write succeeds.
\<close>

lemma add_job_present:
  "n \<in> set (names w) \<Longrightarrow>
   add_job cfg rc now n cmd s descr w =
     (None, w\<lparr>trace := trace w @ [MkDirs], stdout := stdout w @ [ErrorObj (duplicate_msg n)]\<rparr>)"
  by (simp add: add_job_def Let_def list_ex_name names_def ensure_dirs_def print_def
      load_registry_def)

lemma add_job_written:
  assumes "n \<notin> set (names w)"
    and "open_wb w (plist_path cfg n) = None"
    and "plist_dump_error (build_plist cfg n cmd s) = None"
  shows "add_job cfg rc now n cmd s descr w =
     (None,
      w\<lparr>registry_file :=
           Some (load_registry w @
             [\<lparr>name = n, label = LABEL_PREFIX @ n, command = cmd, schedule = s,
               description = descr, plist = plist_path cfg n, enabled = True, created = now\<rparr>]),
         plist_files := (plist_files w)(plist_path cfg n \<mapsto> Definition (build_plist cfg n cmd s)),
         trace := trace w @ [MkDirs, MkLogDir, WritePlist (plist_path cfg n),
                             LaunchctlLoad (plist_path cfg n), MkDirs, WriteRegistry],
         stdout := stdout w @ [Added n (plist_path cfg n) (rc = 0) s]\<rparr>)"
  using assms
  by (simp add: add_job_def Let_def list_ex_name names_def ensure_dirs_def print_def
      load_registry_def save_registry_def)

lemma add_job_write_fails:
  assumes "n \<notin> set (names w)"
    and "open_wb w (plist_path cfg n) \<noteq> None \<or> plist_dump_error (build_plist cfg n cmd s) \<noteq> None"
  shows "fst (add_job cfg rc now n cmd s descr w) \<noteq> None
       \<and> registry_file (snd (add_job cfg rc now n cmd s descr w)) = registry_file w
       \<and> stdout (snd (add_job cfg rc now n cmd s descr w)) = stdout w"
  using assms
  by (auto simp: add_job_def Let_def list_ex_name names_def ensure_dirs_def
      load_registry_def split: option.splits)

lemma names_add_job:
  "names (snd (add_job cfg rc now n cmd s descr w)) = names w
   \<or> n \<notin> set (names w) \<and> names (snd (add_job cfg rc now n cmd s descr w)) = names w @ [n]"
proof (cases "n \<in> set (names w)")
  case True
  then show ?thesis
    by (simp add: add_job_present) (simp add: names_def load_registry_def)
next
  case fresh: False
  show ?thesis
  proof (cases "open_wb w (plist_path cfg n) = None
                \<and> plist_dump_error (build_plist cfg n cmd s) = None")
    case True
    with fresh show ?thesis
      by (simp add: add_job_written) (simp add: names_def load_registry_def)
  next
    case False
    with fresh have "registry_file (snd (add_job cfg rc now n cmd s descr w)) = registry_file w"
      using add_job_write_fails [of n w cfg cmd s rc now descr] by blast
    then show ?thesis
      by (simp add: names_def load_registry_def)
  qed
qed

lemma names_remove_job: "names (remove_job cfg n w) = filter (\<lambda>m. m \<noteq> n) (names w)"
proof (cases "find (\<lambda>e. name e = n) (load_registry w)")
  case None
  then have "n \<notin> set (names w)"
    by (simp add: find_name_None names_def)
  then have "filter (\<lambda>m. m \<noteq> n) (names w) = names w"
    by (induction "names w") (auto simp: filter_id_conv)
  with None show ?thesis
    by (simp add: remove_job_def names_def load_registry_print)
next
  case (Some e)
  then show ?thesis
    by (simp add: remove_job_def names_def Let_def load_registry_print load_registry_save
        filter_map comp_def)
qed

lemma names_enable_job: "names (enable_job cfg n w) = names w"
  by (cases "find (\<lambda>e. name e = n) (load_registry w)")
     (simp_all add: enable_job_def names_def Let_def load_registry_print load_registry_save
        map_name_set_enabled)

lemma names_disable_job: "names (disable_job cfg n w) = names w"
  by (cases "find (\<lambda>e. name e = n) (load_registry w)")
     (simp_all add: disable_job_def names_def Let_def load_registry_print load_registry_save
        map_name_set_enabled)

lemma step_distinct: "distinct (names w) \<Longrightarrow> distinct (names (step cfg x w))"
proof (cases x)
  case (OpAdd rc now n cmd s descr)
  assume "distinct (names w)"
  with names_add_job [of cfg rc now n cmd s descr w] OpAdd show ?thesis
    by auto
qed (simp_all add: names_remove_job names_enable_job names_disable_job)

lemma step_names_subset: "set (names (step cfg x w)) \<subseteq> set (names w) \<union> set (op_adds x)"
proof (cases x)
  case (OpAdd rc now n cmd s descr)
  with names_add_job [of cfg rc now n cmd s descr w] show ?thesis
    by auto
qed (auto simp: names_remove_job names_enable_job names_disable_job)

lemma run_distinct: "distinct (names w) \<Longrightarrow> distinct (names (run cfg xs w))"
  by (induction xs arbitrary: w) (simp_all add: step_distinct)

lemma run_names_subset:
  "set (names (run cfg xs w)) \<subseteq> set (names w) \<union> set (concat (map op_adds xs))"
proof (induction xs arbitrary: w)
  case Nil
  show ?case by simp
next
  case (Cons x xs)
  have "set (names (run cfg xs (step cfg x w)))
          \<subseteq> set (names (step cfg x w)) \<union> set (concat (map op_adds xs))"
    by (rule Cons.IH)
  with step_names_subset [of cfg x w] show ?case by auto
qed

lemmas path_defs = plist_path_def path_join_def path_str_def path_root_def path_parts_def
  LABEL_PREFIX_def cfg0_def

lemmas dump_defs = plist_dump_error_def build_plist_def has_control_def is_control_def
  in_plist_range_def dict_items_def truthy_int_def truthy_dict_def truthy_bool_def

lemmas world_defs = w_backup_def w_orphan_def w_disabled_orphan_def empty_world_def
  only_interval_def only_calendar_def both_given_def add_job_def remove_job_def
  enable_job_def disable_job_def ensure_dirs_def save_registry_def load_registry_def
  print_def names_def path_defs dump_defs Let_def

lemma names_w_backup: "names w_backup = [''backup'']"
  by (simp add: world_defs)

lemma registry_w_backup:
  "registry_file w_backup =
     Some [\<lparr>name = ''backup'', label = ''com.joneshong.scheduler.backup'',
             command = ''rsync -a src dst'', schedule = only_interval 3600, description = [],
             plist = ''/home/u/Library/LaunchAgents/com.joneshong.scheduler.backup.plist'',
             enabled = True, created = ''2026-01-01T00:00:00''\<rparr>]"
  by (simp add: world_defs)

text \<open>
  Claim C1. From a registry whose names are pairwise distinct, every sequence of add,
  remove, enable and disable leaves the names pairwise distinct after each of its steps
  (every prefix \<open>take k ops\<close> of the sequence), and the names at the end are names of
  the start or names given to an add: nothing but add brings a record in.
\<close>

theorem registry_names_unique:
  assumes "distinct (names w)"
  shows "distinct (names (run cfg (take k ops) w))
       \<and> set (names (run cfg ops w)) \<subseteq> set (names w) \<union> set (concat (map op_adds ops))"
  using assms run_names_subset [of cfg ops w] by (simp add: run_distinct)

lemma names_after_two: "names (run cfg0 (take 2 ops0) w_backup) = [''backup'', ''sync'']"
proof -
  have a: "''backup'' \<in> set (names w_backup)"
    by (simp add: names_w_backup)
  let ?w1 = "w_backup\<lparr>trace := trace w_backup @ [MkDirs],
               stdout := stdout w_backup @ [ErrorObj (duplicate_msg ''backup'')]\<rparr>"
  have n1: "names ?w1 = [''backup'']"
    using names_w_backup by (simp add: names_def load_registry_def)
  have b: "''sync'' \<notin> set (names ?w1)"
    by (simp add: n1)
  have c: "open_wb ?w1 (plist_path cfg0 ''sync'') = None"
    by (simp add: world_defs)
  have d: "plist_dump_error (build_plist cfg0 ''sync'' ''true'' (only_calendar [(''Hour'', 9)])) = None"
    by (simp add: dump_defs only_calendar_def path_defs)
  show ?thesis
    using n1
    by (simp add: ops0_def add_job_present [OF a] add_job_written [OF b c d])
       (simp add: names_def load_registry_def)
qed

theorem registry_names_unique_witness:
  "distinct (names w_backup)
   \<and> distinct (names (run cfg0 (take 2 ops0) w_backup))
   \<and> names (run cfg0 (take 2 ops0) w_backup) = [''backup'', ''sync'']
   \<and> names (run cfg0 ops0 w_backup) = [''sync'']"
proof -
  have h: "distinct (names w_backup)"
    by (simp add: names_w_backup)
  note a = names_after_two
  have "run cfg0 ops0 w_backup =
          run cfg0 (drop 2 ops0) (run cfg0 (take 2 ops0) w_backup)"
    by (simp add: ops0_def)
  then have b: "names (run cfg0 ops0 w_backup) = [''sync'']"
    using a
    by (simp add: ops0_def names_enable_job names_disable_job names_remove_job)
  from registry_names_unique [OF h, of cfg0 2 ops0] h a b show ?thesis
    by simp
qed

subsection \<open>Refused operations\<close>

text \<open>
  Claim C2. Adding a name that the registry holds prints the duplicate-name error and
  changes nothing but that: the registry file, the definition files and the log files
  are the ones before, and the only effect is the idempotent creation of the two root
  directories at the start of \<^verbatim>\<open>add_job\<close>. No definition file is written, no
  \<^verbatim>\<open>launchctl load\<close> is run, the registry is not saved, and the call ends without
  an exception.
\<close>

theorem add_job_duplicate:
  assumes "n \<in> set (names w)"
  shows "add_job cfg rc now n cmd s descr w =
           (None,
            w\<lparr>trace := trace w @ [MkDirs], stdout := stdout w @ [ErrorObj (duplicate_msg n)]\<rparr>)
       \<and> load_registry (snd (add_job cfg rc now n cmd s descr w)) = load_registry w"
  using assms
  by (simp add: add_job_def Let_def list_ex_name names_def ensure_dirs_def print_def
      load_registry_def)

theorem add_job_duplicate_witness:
  "''backup'' \<in> set (names w_backup)
   \<and> stdout (snd (add_job cfg0 0 ''later'' ''backup'' ''true'' (only_interval 5) [] w_backup)) =
       stdout w_backup @ [ErrorObj (duplicate_msg ''backup'')]
   \<and> length (filter (\<lambda>e. name e = ''backup'')
        (load_registry
          (snd (add_job cfg0 0 ''later'' ''backup'' ''true'' (only_interval 5) [] w_backup)))) = 1"
proof -
  have h: "''backup'' \<in> set (names w_backup)"
    by (simp add: names_w_backup)
  have r: "length (filter (\<lambda>e. name e = ''backup'') (load_registry w_backup)) = 1"
    by (simp add: load_registry_def registry_w_backup)
  note t = add_job_duplicate [OF h, of cfg0 0 "''later''" "''true''" "only_interval 5" "[]"]
  from t have s:
    "stdout (snd (add_job cfg0 0 ''later'' ''backup'' ''true'' (only_interval 5) [] w_backup)) =
       stdout w_backup @ [ErrorObj (duplicate_msg ''backup'')]"
    by simp
  from t have l:
    "load_registry
       (snd (add_job cfg0 0 ''later'' ''backup'' ''true'' (only_interval 5) [] w_backup))
       = load_registry w_backup"
    by (rule conjunct2)
  from h s r show ?thesis
    by (simp only: l)
qed

text \<open>
  Claim C3. Removing a name that the registry does not hold prints the not-found error
  and leaves every other part of the world as it was: no entry dropped, no definition
  file deleted, no \<^verbatim>\<open>launchctl unload\<close>, no write of the registry file.
\<close>

theorem remove_job_absent:
  assumes "n \<notin> set (names w)"
  shows "remove_job cfg n w = w\<lparr>stdout := stdout w @ [ErrorObj (not_found_msg n)]\<rparr>"
proof -
  from assms have "find (\<lambda>e. name e = n) (load_registry w) = None"
    by (simp add: find_name_None names_def)
  then show ?thesis
    by (simp add: remove_job_def print_def)
qed

theorem remove_job_absent_witness:
  "''sync'' \<notin> set (names w_backup)
   \<and> remove_job cfg0 ''sync'' w_backup =
       w_backup\<lparr>stdout := stdout w_backup @ [ErrorObj (not_found_msg ''sync'')]\<rparr>"
proof -
  have h: "''sync'' \<notin> set (names w_backup)"
    by (simp add: names_w_backup)
  from remove_job_absent [OF h, of cfg0] h show ?thesis by simp
qed

subsection \<open>The definition file written by add\<close>

text \<open>
  Claim C4. For every schedule in which both an interval, a positive number of seconds,
  and a calendar are supplied, the dictionary that add translates the schedule into has
  \<open>StartInterval\<close> set to the interval and no \<open>StartCalendarInterval\<close>; and when
  the name is fresh and the write of the definition file succeeds, that dictionary is
  what the definition file holds.
\<close>

theorem interval_precedence:
  assumes "interval s = Some i" and "0 < i" and "calendar s = Some cal"
  shows "StartInterval (build_plist cfg n cmd s) = Some i
       \<and> StartCalendarInterval (build_plist cfg n cmd s) = None
       \<and> (n \<notin> set (names w) \<and> open_wb w (plist_path cfg n) = None
            \<and> plist_dump_error (build_plist cfg n cmd s) = None \<longrightarrow>
          plist_files (snd (add_job cfg rc now n cmd s descr w)) (plist_path cfg n)
            = Some (Definition (build_plist cfg n cmd s)))"
proof -
  from assms have "StartInterval (build_plist cfg n cmd s) = Some i"
    and "StartCalendarInterval (build_plist cfg n cmd s) = None"
    by (simp_all add: build_plist_def truthy_int_def Let_def)
  then show ?thesis
    by (simp add: add_job_written)
qed

theorem interval_precedence_witness:
  "interval (both_given 60 [(''Hour'', 9)]) = Some 60 \<and> (0::int) < 60
   \<and> calendar (both_given 60 [(''Hour'', 9)]) = Some [(''Hour'', 9)]
   \<and> ''job'' \<notin> set (names empty_world)
   \<and> open_wb empty_world (plist_path cfg0 ''job'') = None
   \<and> plist_dump_error (build_plist cfg0 ''job'' ''true'' (both_given 60 [(''Hour'', 9)])) = None
   \<and> StartInterval (build_plist cfg0 ''job'' ''true'' (both_given 60 [(''Hour'', 9)])) = Some 60
   \<and> StartCalendarInterval (build_plist cfg0 ''job'' ''true'' (both_given 60 [(''Hour'', 9)])) = None
   \<and> plist_files
        (snd (add_job cfg0 0 ''t'' ''job'' ''true'' (both_given 60 [(''Hour'', 9)]) [] empty_world))
        (plist_path cfg0 ''job'')
       = Some (Definition (build_plist cfg0 ''job'' ''true'' (both_given 60 [(''Hour'', 9)])))"
proof -
  have a: "interval (both_given 60 [(''Hour'', 9)]) = Some 60"
    by (simp add: both_given_def)
  have b: "(0::int) < 60"
    by simp
  have c: "calendar (both_given 60 [(''Hour'', 9)]) = Some [(''Hour'', 9)]"
    by (simp add: both_given_def)
  have d: "''job'' \<notin> set (names empty_world)"
    by (simp add: names_def load_registry_def empty_world_def)
  have e: "open_wb empty_world (plist_path cfg0 ''job'') = None"
    by (simp add: empty_world_def)
  have f: "plist_dump_error (build_plist cfg0 ''job'' ''true'' (both_given 60 [(''Hour'', 9)])) = None"
    by (simp add: dump_defs both_given_def path_defs)
  from interval_precedence [OF a b c, of cfg0 "''job''" "''true''" empty_world 0 "''t''" "[]"]
    a b c d e f
  show ?thesis by simp
qed

text \<open>
  An interval of zero is not a number of seconds between runs: line 67 tests the truth
  value of the interval, and with zero the calendar is translated.
\<close>

lemma zero_interval_uses_calendar:
  "StartInterval (build_plist cfg n cmd (both_given 0 [(''Hour'', 9)])) = None
   \<and> StartCalendarInterval (build_plist cfg n cmd (both_given 0 [(''Hour'', 9)]))
       = Some [(''Hour'', 9)]"
  by (simp add: build_plist_def both_given_def truthy_int_def truthy_dict_def truthy_bool_def
      Let_def)

subsection \<open>A daemon that refuses the job\<close>

text \<open>
  Claim C5. When the name is fresh and the definition file was written, add appends the
  entry with \<open>enabled = True\<close> and saves the registry (the write of the registry file
  is the last effect of the call) whatever \<^verbatim>\<open>launchctl load\<close> returned; the call
  ends without an exception and the object printed carries \<open>rc = 0\<close> as the
  \<open>launchctl\<close> flag, so a return code other than zero is reported as \<open>False\<close> and
  stops nothing.
\<close>

theorem add_job_daemon_failure:
  assumes "n \<notin> set (names w)"
    and "open_wb w (plist_path cfg n) = None"
    and "plist_dump_error (build_plist cfg n cmd s) = None"
  shows "fst (add_job cfg rc now n cmd s descr w) = None
       \<and> load_registry (snd (add_job cfg rc now n cmd s descr w)) =
           load_registry w @
             [\<lparr>name = n, label = LABEL_PREFIX @ n, command = cmd, schedule = s,
               description = descr, plist = plist_path cfg n, enabled = True, created = now\<rparr>]
       \<and> registry_file (snd (add_job cfg rc now n cmd s descr w)) =
           Some (load_registry (snd (add_job cfg rc now n cmd s descr w)))
       \<and> last (trace (snd (add_job cfg rc now n cmd s descr w))) = WriteRegistry
       \<and> stdout (snd (add_job cfg rc now n cmd s descr w)) =
           stdout w @ [Added n (plist_path cfg n) (rc = 0) s]"
  using assms
  by (simp add: add_job_def Let_def list_ex_name names_def ensure_dirs_def print_def
      load_registry_def save_registry_def)

theorem add_job_daemon_failure_witness:
  "''sync'' \<notin> set (names w_backup)
   \<and> open_wb w_backup (plist_path cfg0 ''sync'') = None
   \<and> plist_dump_error (build_plist cfg0 ''sync'' ''true'' (only_interval 60)) = None
   \<and> fst (add_job cfg0 1 ''t'' ''sync'' ''true'' (only_interval 60) [] w_backup) = None
   \<and> names (snd (add_job cfg0 1 ''t'' ''sync'' ''true'' (only_interval 60) [] w_backup))
       = [''backup'', ''sync'']
   \<and> map enabled
        (load_registry (snd (add_job cfg0 1 ''t'' ''sync'' ''true'' (only_interval 60) [] w_backup)))
       = [True, True]
   \<and> last (stdout (snd (add_job cfg0 1 ''t'' ''sync'' ''true'' (only_interval 60) [] w_backup)))
       = Added ''sync'' (plist_path cfg0 ''sync'') False (only_interval 60)"
proof -
  have a: "''sync'' \<notin> set (names w_backup)"
    by (simp add: names_w_backup)
  have b: "open_wb w_backup (plist_path cfg0 ''sync'') = None"
    by (simp add: world_defs)
  have c: "plist_dump_error (build_plist cfg0 ''sync'' ''true'' (only_interval 60)) = None"
    by (simp add: dump_defs only_interval_def path_defs)
  have r: "map name (load_registry w_backup) = [''backup'']"
          "map enabled (load_registry w_backup) = [True]"
    by (simp_all add: load_registry_def registry_w_backup)
  from add_job_daemon_failure [OF a b c, of 1 "''t''" "[]"] a b c r
  show ?thesis by (simp add: names_def)
qed

subsection \<open>The schedule summary of list\<close>

lemmas str_defs = str_int_def str_nat.simps digit_char_def fmt_02d_def

lemmas list_defs = list_jobs_def w_job_def empty_world_def load_registry_def print_def
  schedule_desc_def only_calendar_def only_interval_def truthy_int_def truthy_dict_def
  py_index_def days_def Let_def

text \<open>
  Claim C6 as stated fails at 90 seconds: 90 is not a whole number of minutes, so the
  claim's summary is \<open>every 90s\<close>, but line 174 divides with \<^verbatim>\<open>//\<close> and line 175
  tests only \<^verbatim>\<open>mins > 0\<close>, so list prints \<open>every 1 min\<close>.
\<close>

theorem interval_summary_counterexample:
  "schedule_desc (only_interval 90) = Inr ''every 1 min''
   \<and> spec_interval_summary 90 = ''every 90s''
   \<and> schedule_desc (only_interval 90) \<noteq> Inr (spec_interval_summary 90)"
  by (simp add: schedule_desc_def only_interval_def truthy_int_def spec_interval_summary_def
      str_defs)

text \<open>
  Claim C6, amended. For a positive interval of \<open>n\<close> seconds the summary is
  \<open>every n div 60 min\<close> exactly when \<open>n\<close> is at least 60, with the minutes rounded
  down, and \<open>every ns\<close> when \<open>n\<close> is below 60. This is the summary the claim gives
  whenever \<open>n\<close> is a whole number of minutes or is below 60; 3600 gives
  \<open>every 60 min\<close>.
\<close>

theorem interval_summary:
  assumes "interval s = Some n" and "0 < n"
  shows "schedule_desc s =
           Inr (if 60 \<le> n then ''every '' @ str_int (n div 60) @ '' min''
                else ''every '' @ str_int n @ ''s'')
       \<and> (n mod 60 = 0 \<or> n < 60 \<longrightarrow> schedule_desc s = Inr (spec_interval_summary n))"
proof -
  have m: "(0 < n div 60) = (60 \<le> n)"
    using assms(2) by (simp add: pos_imp_zdiv_pos_iff)
  have z: "n mod 60 = 0 \<Longrightarrow> 60 \<le> n"
    using assms(2) by presburger
  from assms m z show ?thesis
    by (auto simp: schedule_desc_def truthy_int_def spec_interval_summary_def Let_def)
qed

theorem interval_summary_witness:
  "interval (only_interval 3600) = Some 3600 \<and> (0::int) < 3600
   \<and> schedule_desc (only_interval 3600) = Inr ''every 60 min''
   \<and> schedule_desc (only_interval 3600) = Inr (spec_interval_summary 3600)"
proof -
  have a: "interval (only_interval 3600) = Some 3600"
    by (simp add: only_interval_def)
  have b: "(0::int) < 3600"
    by simp
  from interval_summary [OF a b] a b show ?thesis
    by (simp add: str_defs spec_interval_summary_def)
qed

text \<open>
  Claim C7 as stated fails: list reads the launchd keys \<open>Weekday\<close>, \<open>Hour\<close> and
  \<open>Minute\<close>, which are the keys the docstring of \<^verbatim>\<open>add_job\<close> and the usage text
  name. With the lower-case keys of the claim none of them is found and the summary is
  the fallback \<open>calendar\<close>.
\<close>

theorem calendar_summary_counterexample:
  "fst (list_jobs (w_job (only_calendar [(''weekday'', 1), (''hour'', 10), (''minute'', 0)]))) = None
   \<and> stdout (snd (list_jobs (w_job (only_calendar [(''weekday'', 1), (''hour'', 10), (''minute'', 0)]))))
       = [Jobs [\<lparr>jv_name = ''report'', jv_enabled = True, jv_schedule = ''calendar'',
                 jv_command = ''make report'', jv_description = []\<rparr>] 1]"
  by (simp add: list_defs)

text \<open>
  Claim C7, amended. For a job whose schedule is
  \<^verbatim>\<open>{"calendar": {"Weekday": 1, "Hour": 10, "Minute": 0}}\<close>, with the launchd
  keys, list prints the summary \<open>Mon 10:00\<close>. The same summary comes out when
  \<open>Minute\<close> is absent; the hour and the minute are filled with zeros to two digits;
  weekday 0 is \<open>Sun\<close> and weekday 6 is \<open>Sat\<close>.
\<close>

theorem calendar_summary:
  "fst (list_jobs (w_job (only_calendar [(''Weekday'', 1), (''Hour'', 10), (''Minute'', 0)]))) = None
   \<and> stdout (snd (list_jobs (w_job (only_calendar [(''Weekday'', 1), (''Hour'', 10), (''Minute'', 0)]))))
       = [Jobs [\<lparr>jv_name = ''report'', jv_enabled = True, jv_schedule = ''Mon 10:00'',
                 jv_command = ''make report'', jv_description = []\<rparr>] 1]
   \<and> schedule_desc (only_calendar [(''Weekday'', 1), (''Hour'', 10)]) = Inr ''Mon 10:00''
   \<and> schedule_desc (only_calendar [(''Weekday'', 0), (''Hour'', 9), (''Minute'', 5)]) = Inr ''Sun 09:05''
   \<and> schedule_desc (only_calendar [(''Weekday'', 6)]) = Inr ''Sat''"
  by (simp add: list_defs str_defs)

subsection \<open>enable without a definition file\<close>

text \<open>
  What \<^const>\<open>set_enabled\<close> does: the first entry of the name gets the value, every
  other entry stays as it is.
\<close>

lemma find_set_enabled:
  "find (\<lambda>e. name e = n) es = Some e \<Longrightarrow>
   find (\<lambda>e. name e = n) (set_enabled n v es) = Some (e\<lparr>enabled := v\<rparr>)"
  by (induction es) (auto split: if_splits)

lemma filter_set_enabled:
  "filter (\<lambda>e. name e \<noteq> n) (set_enabled n v es) = filter (\<lambda>e. name e \<noteq> n) es"
  by (induction es) auto

lemma length_set_enabled: "length (set_enabled n v es) = length es"
  by (induction es) auto

text \<open>
  Claim C8 as stated fails: when the definition file is gone, line 135 skips the daemon
  call and the rest of \<^verbatim>\<open>enable_job\<close> runs as always. For the registry that holds
  \<open>backup\<close> and no file, the object printed is the plain
  \<^verbatim>\<open>{"status": "enabled", "name": "backup"}\<close>.
\<close>

theorem enable_missing_definition_counterexample:
  "''backup'' \<in> set (names w_orphan)
   \<and> plist_files w_orphan (plist_path cfg0 ''backup'') = None
   \<and> stdout (enable_job cfg0 ''backup'' w_orphan) = stdout w_orphan @ [Status ''enabled'' ''backup'']"
proof -
  have r: "registry_file w_orphan = registry_file w_backup" "stdout w_orphan = stdout w_backup"
    "plist_files w_orphan = Map.empty"
    by (simp_all add: w_orphan_def)
  show ?thesis
    by (simp add: r names_def load_registry_def registry_w_backup enable_job_def Let_def
        save_registry_def ensure_dirs_def print_def)
qed

text \<open>
  Claim C8, amended. For a name that the registry holds and whose definition file is
  missing, enable does not write the file again and does not call \<^verbatim>\<open>launchctl\<close>;
  it sets \<open>enabled\<close> to true in the first entry of that name and changes no other
  entry, saves the registry and prints plain success. The missing file is not reported.
\<close>

theorem enable_missing_definition:
  assumes "n \<in> set (names w)" and "plist_files w (plist_path cfg n) = None"
  shows "enable_job cfg n w =
           w\<lparr>registry_file := Some (set_enabled n True (load_registry w)),
              trace := trace w @ [MkDirs, WriteRegistry],
              stdout := stdout w @ [Status ''enabled'' n]\<rparr>
       \<and> (\<exists>e. find (\<lambda>e. name e = n) (load_registry w) = Some e
              \<and> find (\<lambda>e. name e = n) (load_registry (enable_job cfg n w))
                  = Some (e\<lparr>enabled := True\<rparr>))
       \<and> filter (\<lambda>e. name e \<noteq> n) (load_registry (enable_job cfg n w))
           = filter (\<lambda>e. name e \<noteq> n) (load_registry w)
       \<and> length (load_registry (enable_job cfg n w)) = length (load_registry w)
       \<and> plist_files (enable_job cfg n w) (plist_path cfg n) = None"
proof -
  from assms(1) obtain e where e: "find (\<lambda>e. name e = n) (load_registry w) = Some e"
    using find_name_None [of n "load_registry w"] by (auto simp: names_def)
  with assms(2) have eq: "enable_job cfg n w =
           w\<lparr>registry_file := Some (set_enabled n True (load_registry w)),
              trace := trace w @ [MkDirs, WriteRegistry],
              stdout := stdout w @ [Status ''enabled'' n]\<rparr>"
    by (simp add: enable_job_def Let_def save_registry_def ensure_dirs_def print_def)
  have l: "load_registry (enable_job cfg n w) = set_enabled n True (load_registry w)"
    by (simp add: eq) (simp add: load_registry_def)
  have p: "plist_files (enable_job cfg n w) (plist_path cfg n) = None"
    using assms(2) by (simp add: eq)
  from e have f: "find (\<lambda>e. name e = n) (load_registry (enable_job cfg n w))
                  = Some (e\<lparr>enabled := True\<rparr>)"
    by (simp only: l find_set_enabled)
  have fl: "filter (\<lambda>e. name e \<noteq> n) (load_registry (enable_job cfg n w))
           = filter (\<lambda>e. name e \<noteq> n) (load_registry w)"
    by (simp only: l filter_set_enabled)
  have ln: "length (load_registry (enable_job cfg n w)) = length (load_registry w)"
    by (simp only: l length_set_enabled)
  from eq e f fl ln p show ?thesis
    by blast
qed

lemma registry_w_disabled_orphan:
  "registry_file w_disabled_orphan =
     Some [\<lparr>name = ''backup'', label = ''com.joneshong.scheduler.backup'',
             command = ''rsync -a src dst'', schedule = only_interval 3600, description = [],
             plist = ''/home/u/Library/LaunchAgents/com.joneshong.scheduler.backup.plist'',
             enabled = False, created = ''2026-01-01T00:00:00''\<rparr>]"
  by (simp add: w_disabled_orphan_def disable_job_def load_registry_def registry_w_backup
      Let_def save_registry_def ensure_dirs_def print_def)

theorem enable_missing_definition_witness:
  "''backup'' \<in> set (names w_disabled_orphan)
   \<and> plist_files w_disabled_orphan (plist_path cfg0 ''backup'') = None
   \<and> map enabled (load_registry w_disabled_orphan) = [False]
   \<and> map enabled (load_registry (enable_job cfg0 ''backup'' w_disabled_orphan)) = [True]
   \<and> plist_files (enable_job cfg0 ''backup'' w_disabled_orphan) (plist_path cfg0 ''backup'') = None
   \<and> trace (enable_job cfg0 ''backup'' w_disabled_orphan)
       = trace w_disabled_orphan @ [MkDirs, WriteRegistry]
   \<and> last (stdout (enable_job cfg0 ''backup'' w_disabled_orphan)) = Status ''enabled'' ''backup''"
proof -
  have a: "''backup'' \<in> set (names w_disabled_orphan)"
    by (simp add: names_def load_registry_def registry_w_disabled_orphan)
  have b: "plist_files w_disabled_orphan (plist_path cfg0 ''backup'') = None"
    by (simp add: w_disabled_orphan_def)
  have c: "load_registry w_disabled_orphan =
     [\<lparr>name = ''backup'', label = ''com.joneshong.scheduler.backup'',
             command = ''rsync -a src dst'', schedule = only_interval 3600, description = [],
             plist = ''/home/u/Library/LaunchAgents/com.joneshong.scheduler.backup.plist'',
             enabled = False, created = ''2026-01-01T00:00:00''\<rparr>]"
    by (simp add: load_registry_def registry_w_disabled_orphan)
  note t = enable_missing_definition [OF a b]
  from t have eq: "enable_job cfg0 ''backup'' w_disabled_orphan =
           w_disabled_orphan\<lparr>registry_file := Some (set_enabled ''backup'' True (load_registry w_disabled_orphan)),
              trace := trace w_disabled_orphan @ [MkDirs, WriteRegistry],
              stdout := stdout w_disabled_orphan @ [Status ''enabled'' ''backup'']\<rparr>"
    by (rule conjunct1)
  from t obtain e where
    e: "find (\<lambda>e. name e = ''backup'') (load_registry w_disabled_orphan) = Some e"
    and f: "find (\<lambda>e. name e = ''backup'') (load_registry (enable_job cfg0 ''backup'' w_disabled_orphan))
              = Some (e\<lparr>enabled := True\<rparr>)"
    by blast
  from t have "length (load_registry (enable_job cfg0 ''backup'' w_disabled_orphan))
                 = length (load_registry w_disabled_orphan)"
    by blast
  then have len: "length (load_registry (enable_job cfg0 ''backup'' w_disabled_orphan)) = 1"
    by (simp only: c) simp
  then obtain x where x: "load_registry (enable_job cfg0 ''backup'' w_disabled_orphan) = [x]"
    by (cases "load_registry (enable_job cfg0 ''backup'' w_disabled_orphan)") auto
  with f have "enabled x = True"
    by (auto split: if_splits)
  with x have g: "map enabled (load_registry (enable_job cfg0 ''backup'' w_disabled_orphan)) = [True]"
    by simp
  have h: "map enabled (load_registry w_disabled_orphan) = [False]"
    by (simp add: c)
  from t have p: "plist_files (enable_job cfg0 ''backup'' w_disabled_orphan) (plist_path cfg0 ''backup'') = None"
    by blast
  have tr: "trace (enable_job cfg0 ''backup'' w_disabled_orphan)
       = trace w_disabled_orphan @ [MkDirs, WriteRegistry]"
    by (simp add: eq)
  have st: "last (stdout (enable_job cfg0 ''backup'' w_disabled_orphan)) = Status ''enabled'' ''backup''"
    by (simp add: eq)
  from a b h g p tr st show ?thesis
    by simp
qed

subsection \<open>logs\<close>

text \<open>
  For a positive number of lines the slice \<^verbatim>\<open>content[-lines:]\<close> is the end of the
  file, at most that many lines long.
\<close>

lemma tail_lines_at_most: "0 < lines \<Longrightarrow> length (tail_lines text lines) \<le> nat lines"
  by (auto simp: tail_lines_def py_slice_from_def Let_def)

lemma tail_lines_suffix:
  "0 < lines \<Longrightarrow>
   tail_lines text lines = drop (length (file_lines text) - nat lines) (file_lines text)"
  by (auto simp: tail_lines_def py_slice_from_def Let_def max_def nat_diff_distrib'
      intro: arg_cong2 [of _ _ _ _ drop])

lemma show_logs_no_files:
  "log_files w (path_join (path_join (REGISTRY_DIR cfg) ''logs'') (n @ ''.log'')) = None \<Longrightarrow>
   log_files w (path_join (path_join (REGISTRY_DIR cfg) ''logs'') (n @ ''.err'')) = None \<Longrightarrow>
   show_logs cfg n lines w =
     print (Logs None None (Some (''No logs found for '' @ quote_name n))) w"
  by (simp add: show_logs_def Let_def)

text \<open>
  Claim C9 at a line count of zero. \<^verbatim>\<open>content[-0:]\<close> is \<^verbatim>\<open>content[0:]\<close>, the
  whole list: for a stdout log of two lines, \<^verbatim>\<open>logs report 0\<close> prints both lines,
  where the claim allows at most zero.
\<close>

theorem show_logs_zero_lines:
  "stdout (show_logs cfg0 ''report'' 0 w_logs) = [Logs (Some [''a'', ''b'']) None None]"
  by (simp add: show_logs_def w_logs_def empty_world_def path_defs print_def
      tail_lines_def file_lines_def py_slice_from_def strip_def is_space_def Let_def)

subsection \<open>A weekday outside the table\<close>

lemma py_index_days: "(\<exists>d. py_index days i = Inr d) = (- 7 \<le> i \<and> i < 7)"
  by (auto simp: py_index_def days_def Let_def)

lemma schedule_desc_bad_weekday:
  assumes "\<not> truthy_int (interval s)" and "calendar s = Some cal"
    and "map_of cal ''Weekday'' = Some wd" and "7 \<le> wd"
  shows "schedule_desc s = Inl IndexError"
proof -
  from assms(3) have "cal \<noteq> []" by auto
  with assms show ?thesis
    by (simp add: schedule_desc_def truthy_dict_def py_index_def days_def Let_def)
qed

lemma schedule_desc_error: "schedule_desc s = Inl err \<Longrightarrow> err = IndexError"
  by (auto simp: schedule_desc_def py_index_def Let_def
      split: if_splits option.splits sum.splits)

lemma render_jobs_raises:
  "e \<in> set es \<Longrightarrow> schedule_desc (schedule e) = Inl err \<Longrightarrow> render_jobs es out = Inl IndexError"
proof (induction es arbitrary: out)
  case Nil
  then show ?case by simp
next
  case (Cons x xs)
  then show ?case
    by (cases "schedule_desc (schedule x)") (auto dest: schedule_desc_error)
qed

text \<open>
  Claim C10 as stated fails for an entry that has a calendar with \<open>Weekday\<close> 7 and an
  interval as well: line 173 takes the interval, the calendar is not read, and list
  prints \<open>every 1 min\<close> for \<^verbatim>\<open>{"interval": 60, "calendar": {"Weekday": 7}}\<close>.
\<close>

theorem list_jobs_bad_weekday_counterexample:
  "fst (list_jobs (w_job (both_given 60 [(''Weekday'', 7)]))) = None
   \<and> stdout (snd (list_jobs (w_job (both_given 60 [(''Weekday'', 7)]))))
       = [Jobs [\<lparr>jv_name = ''report'', jv_enabled = True, jv_schedule = ''every 1 min'',
                 jv_command = ''make report'', jv_description = []\<rparr>] 1]"
  by (simp add: list_defs both_given_def str_defs)

text \<open>
  Claim C10, amended. When the registry holds an entry that list summarises by its
  calendar (its interval is absent or zero) and the calendar's \<open>Weekday\<close> is 7 or
  more, list ends with \<^verbatim>\<open>IndexError\<close> and prints nothing. The lookup in the table of
  seven names gives a name exactly for the indices from \<open>-7\<close> to \<open>6\<close>.
\<close>

theorem list_jobs_bad_weekday:
  assumes "e \<in> set (load_registry w)"
    and "\<not> truthy_int (interval (schedule e))"
    and "calendar (schedule e) = Some cal"
    and "map_of cal ''Weekday'' = Some wd"
    and "7 \<le> wd"
  shows "fst (list_jobs w) = Some IndexError
       \<and> stdout (snd (list_jobs w)) = stdout w
       \<and> py_index days wd = Inl IndexError
       \<and> ((\<exists>d. py_index days i = Inr d) = (- 7 \<le> i \<and> i < 7))"
proof -
  have "schedule_desc (schedule e) = Inl IndexError"
    using assms(2-5) by (rule schedule_desc_bad_weekday)
  with assms(1) have r: "render_jobs (load_registry w) [] = Inl IndexError"
    by (rule render_jobs_raises)
  from assms(1) have ne: "load_registry w \<noteq> []"
    by auto
  from assms(5) have "py_index days wd = Inl IndexError"
    by (simp add: py_index_def days_def Let_def)
  with r ne show ?thesis
    by (simp add: list_jobs_def Let_def py_index_days)
qed

theorem list_jobs_bad_weekday_witness:
  "fst (list_jobs (w_job (only_calendar [(''Weekday'', 7), (''Hour'', 10)]))) = Some IndexError
   \<and> stdout (snd (list_jobs (w_job (only_calendar [(''Weekday'', 7), (''Hour'', 10)])))) = []
   \<and> py_index days (- 1) = Inr ''Sat''"
proof -
  let ?s = "only_calendar [(''Weekday'', 7), (''Hour'', 10)]"
  let ?e = "\<lparr>name = ''report'', label = LABEL_PREFIX @ ''report'', command = ''make report'',
              schedule = ?s, description = [], plist = plist_path cfg0 ''report'',
              enabled = True, created = ''2026-01-01T00:00:00''\<rparr>"
  have a: "?e \<in> set (load_registry (w_job ?s))"
    by (simp add: w_job_def load_registry_def empty_world_def)
  have b: "\<not> truthy_int (interval (schedule ?e))"
    by (simp add: only_calendar_def truthy_int_def)
  have c: "calendar (schedule ?e) = Some [(''Weekday'', 7), (''Hour'', 10)]"
    by (simp add: only_calendar_def)
  have d: "map_of [(''Weekday'', 7::int), (''Hour'', 10)] ''Weekday'' = Some 7"
    by simp
  have e: "(7::int) \<le> 7"
    by simp
  have f: "py_index days (- 1) = Inr ''Sat''"
    by (simp add: py_index_def days_def)
  from list_jobs_bad_weekday [OF a b c d e] f show ?thesis
    by (simp add: w_job_def empty_world_def)
qed

end
